theory Spec2Isabelle
  imports Complex_Main "HOL-Library.Sublist" "HOL-Library.AList" "HOL-Library.List_Lexorder"
    "HOL-Library.Char_ord"
begin

section \<open>Outcomes of C++ code\<close>

text \<open>
  The sources are C++ (\<^verbatim>\<open>ProcessManager.cpp\<close>, \<^verbatim>\<open>Project.cpp\<close>). A call either
  returns, throws an exception, or has undefined behaviour (an index past the end of a
  \<^verbatim>\<open>std::vector\<close>, a conversion of a non-finite float to \<^verbatim>\<open>int\<close>, a non-void
  function that reaches the end of its body). The three are kept apart.
\<close>

datatype exn =
    invalid_argument
  | out_of_range
  | Exception string

datatype 'a outcome = Returns 'a | Throws exn | Undefined

definition obind :: "'a outcome \<Rightarrow> ('a \<Rightarrow> 'b outcome) \<Rightarrow> 'b outcome" where
  "obind m f = (case m of Returns a \<Rightarrow> f a | Throws e \<Rightarrow> Throws e | Undefined \<Rightarrow> Undefined)"

section \<open>Strings and numbers of the standard library\<close>

text \<open>\<^verbatim>\<open>std::string::find\<close>: the position of the first occurrence, \<open>None\<close> for \<^verbatim>\<open>npos\<close>.\<close>

primrec str_find :: "string \<Rightarrow> string \<Rightarrow> nat option" where
  "str_find [] pat = (if pat = [] then Some 0 else None)"
| "str_find (c # cs) pat =
     (if prefix pat (c # cs) then Some 0 else map_option Suc (str_find cs pat))"

definition isspace :: "char \<Rightarrow> bool" where
  "isspace c = (c \<in> set [CHR '' '', CHR 0x09, CHR 0x0A, CHR 0x0B, CHR 0x0C, CHR 0x0D])"

definition isdigit :: "char \<Rightarrow> bool" where
  "isdigit c = (c \<in> set ''0123456789'')"

definition digit_val :: "char \<Rightarrow> int" where
  "digit_val c =
     (case map_of (zip ''0123456789'' [0, 1, 2, 3, 4, 5, 6, 7, 8, 9]) c of
        Some d \<Rightarrow> d
      | None \<Rightarrow> 0)"

definition digits_val :: "string \<Rightarrow> int" where
  "digits_val ds = foldl (\<lambda>acc c. 10 * acc + digit_val c) 0 ds"

definition INT_MIN :: int where "INT_MIN = - 2147483648"
definition INT_MAX :: int where "INT_MAX = 2147483647"

text \<open>
  \<^verbatim>\<open>std::stoi(str)\<close> (base 10): leading white space is skipped, an optional sign is read,
  then the longest run of digits; what follows is ignored. No digit:
  \<^verbatim>\<open>std::invalid_argument\<close>. A value that does not fit \<^verbatim>\<open>int\<close>:
  \<^verbatim>\<open>std::out_of_range\<close>.
\<close>

definition stoi :: "string \<Rightarrow> int outcome" where
  "stoi str =
     (let s1 = dropWhile isspace str;
          neg = (s1 \<noteq> [] \<and> hd s1 = CHR ''-'');
          s2 = (if s1 \<noteq> [] \<and> (hd s1 = CHR ''-'' \<or> hd s1 = CHR ''+'') then tl s1 else s1);
          ds = takeWhile isdigit s2
      in if ds = [] then Throws invalid_argument
         else let v = (if neg then - digits_val ds else digits_val ds)
              in if v < INT_MIN \<or> INT_MAX < v then Throws out_of_range else Returns v)"

text \<open>\<^verbatim>\<open>std::to_string\<close> of a non-negative \<^verbatim>\<open>int\<close>: its decimal digits.\<close>

definition digit_char :: "nat \<Rightarrow> char" where
  "digit_char d = ''0123456789'' ! (d mod 10)"

function to_string :: "nat \<Rightarrow> string" where
  "to_string n = (if n < 10 then [digit_char n] else to_string (n div 10) @ [digit_char n])"
  by pat_completeness auto
termination
  by (relation "measure id") auto

declare to_string.simps [simp del]

text \<open>
  A \<^verbatim>\<open>std::map<std::string, std::string>\<close> read with \<^verbatim>\<open>operator[]\<close>: an absent key
  yields the empty string (and is inserted; no key that the code later tests with
  \<^verbatim>\<open>count\<close> is ever read with \<^verbatim>\<open>operator[]\<close> before the test).
\<close>

type_synonym metadata = "string \<rightharpoonup> string"

definition mget :: "metadata \<Rightarrow> string \<Rightarrow> string" where
  "mget m k = (case m k of None \<Rightarrow> [] | Some v \<Rightarrow> v)"

section \<open>Engine resolver: \<^verbatim>\<open>ProcessManager::selectOptimalInferenceEngine\<close>\<close>

text \<open>
  Lines 171--219 of \<^verbatim>\<open>ProcessManager.cpp\<close>: the chain of tests over the list
  \<^verbatim>\<open>acceptedModels\<close> of extensions (each with its leading dot) and the list
  \<^verbatim>\<open>_inference_engines\<close>. \<^verbatim>\<open>std::find(...) != end()\<close> is list membership.
\<close>

definition select_engine_pair :: "string list \<Rightarrow> string list \<Rightarrow> string \<times> string" where
  "select_engine_pair acceptedModels inference_engines =
     (if ''.onnx'' \<in> set acceptedModels \<and> ''TensorRT'' \<in> set inference_engines
        then (''TensorRT'', ''onnx'')
      else if ''.uff'' \<in> set acceptedModels \<and> ''TensorRT'' \<in> set inference_engines
        then (''TensorRT'', ''uff'')
      else if ''.onnx'' \<in> set acceptedModels \<and> ''OpenVINO'' \<in> set inference_engines
        then (''OpenVINO'', ''onnx'')
      else if ''.xml'' \<in> set acceptedModels \<and> ''OpenVINO'' \<in> set inference_engines
        then (''OpenVINO'', ''xml'')
      else if ''.pb'' \<in> set acceptedModels \<and> ''TensorFlow'' \<in> set inference_engines
        then (''TensorFlow'', ''pb'')
      else ('''', ''''))"

text \<open>
  Lines 143--158 (and again 346--361 in \<^verbatim>\<open>pixelClassifier\<close>): every file of the model's
  directory whose name contains the model name contributes the extension
  \<^verbatim>\<open>"." + splitCustom(file, model_name + ".").back()\<close>. \<^verbatim>\<open>splitCustom\<close> is declared in
  \<^verbatim>\<open>source/utils/utilities.h\<close>, which is not among the sources: it is a parameter.
  \<^verbatim>\<open>back()\<close> of an empty vector is undefined behaviour.
\<close>

fun acceptedModels_of ::
  "(string \<Rightarrow> string \<Rightarrow> string list) \<Rightarrow> string \<Rightarrow> string list \<Rightarrow> string list outcome" where
  "acceptedModels_of splitCustom model_name [] = Returns []"
| "acceptedModels_of splitCustom model_name (currentModel # models) =
     (if str_find currentModel model_name \<noteq> None then
        (case splitCustom currentModel (model_name @ ''.'') of
           [] \<Rightarrow> Undefined
         | t # ts \<Rightarrow>
            obind (acceptedModels_of splitCustom model_name models)
              (\<lambda>rest. Returns ((''.'' @ last (t # ts)) # rest)))
      else acceptedModels_of splitCustom model_name models)"

definition selectOptimalInferenceEngine ::
  "(string \<Rightarrow> string \<Rightarrow> string list) \<Rightarrow> string list \<Rightarrow> string list \<Rightarrow> string
     \<Rightarrow> (string \<times> string) outcome" where
  "selectOptimalInferenceEngine splitCustom models inference_engines model_name =
     obind (acceptedModels_of splitCustom model_name models)
       (\<lambda>acceptedModels. Returns (select_engine_pair acceptedModels inference_engines))"

text \<open>
  The resolver as the specification words it: a fixed priority list of
  (backend, format) candidates, searched over the \<^emph>\<open>sets\<close> of formats and backends.
\<close>

definition priority_order :: "(string \<times> string) list" where
  "priority_order =
     [(''TensorRT'', ''onnx''), (''TensorRT'', ''uff''), (''OpenVINO'', ''onnx''),
      (''OpenVINO'', ''xml''), (''TensorFlow'', ''pb'')]"

definition resolve_spec :: "string set \<Rightarrow> string set \<Rightarrow> string \<times> string" where
  "resolve_spec formats backends =
     (case List.find (\<lambda>(b, f). ''.'' @ f \<in> formats \<and> b \<in> backends) priority_order of
        Some p \<Rightarrow> p
      | None \<Rightarrow> ('''', ''''))"

section \<open>Project: \<^verbatim>\<open>Project.cpp\<close>\<close>

text \<open>
  Modelled from the spec: the class \<^verbatim>\<open>WholeSlideImage\<close> is not among the sources. The
  specification (section 6) has the manifest hold, for each image, the file path next to
  its uid: \<^verbatim>\<open>get_filename()\<close> is the path the image was constructed from. The record
  keeps that path and whether a stored thumbnail was handed to the constructor.
\<close>

record WholeSlideImage =
  wsi_filename :: string
  wsi_thumbnail :: bool

text \<open>
  \<^verbatim>\<open>_images\<close> is a \<^verbatim>\<open>std::map<std::string, std::shared_ptr<WholeSlideImage>>\<close>: an
  association list kept in key order (the order in which the map is iterated), one entry
  per key. \<open>map_assign\<close> is \<^verbatim>\<open>m[k] = v\<close>.
\<close>

record Project =
  root_folder :: string
  temporary_dir_flag :: bool
  images :: "(string \<times> WholeSlideImage) list"

definition map_assign :: "string \<Rightarrow> 'v \<Rightarrow> (string \<times> 'v) list \<Rightarrow> (string \<times> 'v) list" where
  "map_assign k v m =
     (if map_of m k \<noteq> None then AList.update k v m else insort_key fst (k, v) m)"

text \<open>
  \<^verbatim>\<open>Project::getImage(const std::string&)\<close>, lines 60--65: the stored image when the
  name is a key; otherwise control reaches the end of a non-void function.
\<close>

definition getImage :: "Project \<Rightarrow> string \<Rightarrow> WholeSlideImage outcome" where
  "getImage p name =
     (case map_of (images p) name of
        Some wsi \<Rightarrow> Returns wsi
      | None \<Rightarrow> Undefined)"

definition removeImage :: "Project \<Rightarrow> string \<Rightarrow> Project" where
  "removeImage p uid = p\<lparr>images := AList.delete uid (images p)\<rparr>"

definition emptyProject :: "Project \<Rightarrow> Project" where
  "emptyProject p = p\<lparr>images := []\<rparr>"

subsection \<open>The files of a project\<close>

text \<open>
  The file system, as far as \<^verbatim>\<open>saveProject\<close> and \<^verbatim>\<open>loadProject\<close> use it: text files
  as lists of lines (what \<^verbatim>\<open>stream << line << endl\<close> writes and
  \<^verbatim>\<open>QTextStream::readLine\<close> reads back), and which paths can be opened for writing.
  A path names the same file whatever the number of consecutive slashes in it, so files
  are looked up by the path with every run of slashes collapsed.
\<close>

record filesystem =
  fs_files :: "string \<rightharpoonup> string list"
  fs_writable :: "string \<Rightarrow> bool"

fun npath :: "string \<Rightarrow> string" where
  "npath (a # b # cs) =
     (if a = CHR ''/'' \<and> b = CHR ''/'' then npath (b # cs) else a # npath (b # cs))"
| "npath cs = cs"

definition file_exists :: "filesystem \<Rightarrow> string \<Rightarrow> bool" where
  "file_exists fs path = (fs_files fs (npath path) \<noteq> None)"

definition write_file :: "filesystem \<Rightarrow> string \<Rightarrow> string list \<Rightarrow> filesystem" where
  "write_file fs path content =
     (if fs_writable fs (npath path) then fs\<lparr>fs_files := (fs_files fs)(npath path \<mapsto> content)\<rparr>
      else fs)"

text \<open>\<^verbatim>\<open>v.front()\<close>, \<^verbatim>\<open>v.back()\<close> and \<^verbatim>\<open>v[i]\<close> of a \<^verbatim>\<open>std::vector\<close>.\<close>

definition vec_front :: "'a list \<Rightarrow> 'a outcome" where
  "vec_front v = (case v of [] \<Rightarrow> Undefined | a # _ \<Rightarrow> Returns a)"

definition vec_back :: "'a list \<Rightarrow> 'a outcome" where
  "vec_back v = (if v = [] then Undefined else Returns (last v))"

definition vec_at :: "'a list \<Rightarrow> nat \<Rightarrow> 'a outcome" where
  "vec_at v i = (if i < length v then Returns (v ! i) else Undefined)"

text \<open>
  \<^verbatim>\<open>Project::saveThumbnails\<close>, lines 183--191: one image file per whole-slide image,
  named after the stem of the slide's file name.
\<close>

fun saveThumbnails ::
  "(string \<Rightarrow> string \<Rightarrow> string list) \<Rightarrow> string \<Rightarrow> filesystem
     \<Rightarrow> (string \<times> WholeSlideImage) list \<Rightarrow> filesystem outcome" where
  "saveThumbnails splitCustom rootdir fs [] = Returns fs"
| "saveThumbnails splitCustom rootdir fs (currWSI # rest) =
     obind (vec_back (splitCustom (wsi_filename (snd currWSI)) ''/'')) (\<lambda>base.
     obind (vec_at (splitCustom base ''.'') 0) (\<lambda>stem.
     saveThumbnails splitCustom rootdir
       (write_file fs (rootdir @ ''/thumbnails/'' @ stem @ ''.png'') []) rest))"

text \<open>
  \<^verbatim>\<open>Project::saveProject\<close>, lines 165--181: the manifest
  \<^verbatim>\<open>_root_folder + "/project.txt"\<close> is emptied and, when it can be opened, receives one
  line \<^verbatim>\<open>uid + "," + filename\<close> per entry of \<^verbatim>\<open>_images\<close>; then the thumbnails are
  saved.
\<close>

definition manifest_lines :: "(string \<times> WholeSlideImage) list \<Rightarrow> string list" where
  "manifest_lines imgs = map (\<lambda>wsi_pair. fst wsi_pair @ '','' @ wsi_filename (snd wsi_pair)) imgs"

definition saveProject ::
  "(string \<Rightarrow> string \<Rightarrow> string list) \<Rightarrow> filesystem \<Rightarrow> Project \<Rightarrow> filesystem outcome" where
  "saveProject splitCustom fs p =
     (let overall_filename = root_folder p @ ''/project.txt'';
          fs' = write_file fs overall_filename (manifest_lines (images p))
      in saveThumbnails splitCustom (root_folder p) fs' (images p))"

text \<open>
  \<^verbatim>\<open>Project::includeImageFromProject\<close>, lines 113--127: the thumbnail is looked for
  under \<^verbatim>\<open>_root_folder + "/thumbnails" + uid_name + ".png"\<close>.
\<close>

definition includeImageFromProject ::
  "filesystem \<Rightarrow> Project \<Rightarrow> string \<Rightarrow> string \<Rightarrow> Project" where
  "includeImageFromProject fs p uid_name image_filepath =
     (let thumbnail_filename = root_folder p @ ''/thumbnails'' @ uid_name @ ''.png'';
          image = \<lparr>wsi_filename = image_filepath,
                   wsi_thumbnail = file_exists fs thumbnail_filename\<rparr>
      in p\<lparr>images := map_assign uid_name image (images p)\<rparr>)"

text \<open>
  \<^verbatim>\<open>Project::loadProject\<close>, lines 134--163: the project is emptied; the manifest is
  read from \<^verbatim>\<open>_root_folder + projectFileName\<close> with
  \<^verbatim>\<open>projectFileName = "project.txt"\<close>; each line is cut at the commas, its first piece
  the uid and its last piece the file name, collected in the map \<^verbatim>\<open>fileNames\<close>; every
  entry of that map is then included. A manifest that cannot be opened leaves
  \<^verbatim>\<open>fileNames\<close> empty.
\<close>

fun parse_manifest ::
  "(string \<Rightarrow> string \<Rightarrow> string list) \<Rightarrow> (string \<times> string) list \<Rightarrow> string list
     \<Rightarrow> (string \<times> string) list outcome" where
  "parse_manifest splitCustom fileNames [] = Returns fileNames"
| "parse_manifest splitCustom fileNames (line # rest) =
     obind (vec_front (splitCustom line '','')) (\<lambda>uid.
     obind (vec_back (splitCustom line '','')) (\<lambda>filename.
     parse_manifest splitCustom (map_assign uid filename fileNames) rest))"

definition loadProject ::
  "(string \<Rightarrow> string \<Rightarrow> string list) \<Rightarrow> filesystem \<Rightarrow> Project \<Rightarrow> Project outcome" where
  "loadProject splitCustom fs p =
     (let p0 = emptyProject p;
          projectFileName = ''project.txt''
      in obind
           (case fs_files fs (npath (root_folder p0 @ projectFileName)) of
              None \<Rightarrow> Returns []
            | Some lines \<Rightarrow> parse_manifest splitCustom [] lines)
           (\<lambda>fileNames.
              Returns (foldl (\<lambda>q wsi_pair. includeImageFromProject fs q (fst wsi_pair) (snd wsi_pair))
                         p0 fileNames)))"

text \<open>
  Modelled from the spec: \<^verbatim>\<open>splitCustom\<close> of \<^verbatim>\<open>source/utils/utilities.h\<close> is not
  among the sources; the specification (section 6) describes it as exact, case-sensitive
  substring splitting. \<open>split_on s d\<close> cuts \<open>s\<close> at every occurrence of the delimiter
  \<open>d\<close>, left to right, and keeps the empty pieces. It instantiates the parameter
  \<open>splitCustom\<close> at the concrete inputs below.
\<close>

function split_acc :: "string \<Rightarrow> string \<Rightarrow> string \<Rightarrow> string list" where
  "split_acc d acc [] = [rev acc]"
| "split_acc d acc (c # cs) =
     (if d \<noteq> [] \<and> prefix d (c # cs) then rev acc # split_acc d [] (drop (length d) (c # cs))
      else split_acc d (c # acc) cs)"
  by pat_completeness auto
termination
  by (relation "measure (\<lambda>(d, acc, s). length s)") auto

definition split_on :: "string \<Rightarrow> string \<Rightarrow> string list" where
  "split_on s d = split_acc d [] s"

text \<open>A project in a fresh temporary folder with one slide, and an empty writable disk.\<close>

definition example_project :: Project where
  "example_project =
     \<lparr>root_folder = ''/tmp/project_12345678'', temporary_dir_flag = True,
      images = [(''A'', \<lparr>wsi_filename = ''/data/A.svs'', wsi_thumbnail = False\<rparr>)]\<rparr>"

definition empty_disk :: filesystem where
  "empty_disk = \<lparr>fs_files = Map.empty, fs_writable = (\<lambda>_. True)\<rparr>"

section \<open>Result store: \<^verbatim>\<open>Project::loadResults\<close>\<close>























section \<open>Pipeline assembler: \<^verbatim>\<open>ProcessManager::pixelClassifier\<close>\<close>

subsection \<open>What the run reads and what it calls\<close>

text \<open>
  The collaborators of the run that are not in the repository's sources, as parameters:
  \<^verbatim>\<open>splitCustom\<close> (\<^verbatim>\<open>source/utils/utilities.h\<close>); \<^verbatim>\<open>std::stof\<close>; and of the FAST
  library, whether \<^verbatim>\<open>setInferenceEngine(name)\<close> finds the engine (it throws otherwise),
  the name the engine so made reports (\<^verbatim>\<open>getName()\<close>), the file extension of its preferred
  model format (\<^verbatim>\<open>getModelFileExtension(getPreferredModelFormat())\<close>), whether
  \<^verbatim>\<open>load(path)\<close> succeeds under an engine, whether \<^verbatim>\<open>getLevelAsImage(level)\<close> succeeds,
  and whether the \<^verbatim>\<open>update()\<close> of a named stage succeeds. The library's other calls
  (constructors, setters, connections) are taken to return. Where C++ leaves the order in
  which operands or arguments are evaluated open, the model evaluates them left to right.
\<close>

record fast_ext =
  x_splitCustom :: "string \<Rightarrow> string \<Rightarrow> string list"
  x_stof :: "string \<Rightarrow> real outcome"
  x_engine_available :: "string \<Rightarrow> bool"
  x_engine_getName :: "string \<Rightarrow> string"
  x_preferred_extension :: "string \<Rightarrow> string"
  x_load_ok :: "string \<Rightarrow> string \<Rightarrow> bool"
  x_getLevelAsImage_ok :: "int \<Rightarrow> bool"
  x_update_ok :: "string \<Rightarrow> bool"

text \<open>
  What one run reads: the members \<^verbatim>\<open>_models_filepath\<close> and \<^verbatim>\<open>_inference_engines\<close>, the
  argument \<^verbatim>\<open>process_name\<close>, the files of the model's directory, the model's metadata
  map, the visible image's metadata map and magnification, and the lines of the model's
  \<^verbatim>\<open>.anchors\<close> file (none when the file is missing).
\<close>

record run_env =
  models_filepath :: string
  inference_engines :: "string list"
  process_name :: string
  model_files :: "string list"
  modelMetadata :: metadata
  wsi_metadata :: metadata
  magn_lvl :: real
  anchors_file :: "string list"

text \<open>
  The calls the run makes on the objects it builds, in the order it makes them. The
  network \<^verbatim>\<open>network\<close>, the resizers, the patch generator, the tissue segmentation, the
  bounding-box network \<^verbatim>\<open>currNetwork\<close> and the non-maximum suppression each have their
  own constructors. Tensor shapes are lists of \<^verbatim>\<open>int\<close>; a colour is the triple of
  integers read from the metadata (the source divides each by \<^verbatim>\<open>255.0f\<close>).
\<close>

datatype call =
    Net_New string
  | Net_setInferenceEngine string
  | Net_setDeviceType_CPU
  | Net_setInputNode string "int list"
  | Net_setOutputNode string "int list"
  | Net_load string
  | Net_setInputData
  | Net_setInputConnection
  | Net_setScaleFactor int int
  | Access_getLevelAsImage int
  | Resizer_setInputData int
  | Resizer_setWidth int
  | Resizer_setHeight int
  | Resizer_update
  | Resizer2_update
  | Tissue_setThreshold int
  | Gen_setInputConnection_tissue
  | Gen_setPatchSize int int
  | Gen_setPatchLevel int
  | Gen_setMaskThreshold real
  | Gen_setOverlap real
  | Gen_setInputData
  | BB_setThreshold real
  | BB_setAnchors "(int \<times> int) list list"
  | BB_setScaleFactor int int
  | BB_setInferenceEngine string
  | BB_load string
  | BB_setInputConnection
  | NMS_setThreshold real
  | Renderer_update

datatype run_renderer =
    HeatmapRenderer int "(int \<times> int \<times> int) list"
  | SegmentationRenderer "(int \<times> int \<times> int) list"
  | BoundingBoxRenderer

text \<open>
  The state a run changes: the renderers registered on the visible image (by name, with
  the renderer's type string), the lines written to \<^verbatim>\<open>std::cout\<close> (the constant text of
  each diagnostic; the dumps of the metadata and of computed values are left out), the
  calls made so far, and the local \<^verbatim>\<open>chosenIE\<close>.
\<close>

record run_state =
  renderers :: "string \<rightharpoonup> (string \<times> run_renderer)"
  cout_log :: "string list"
  calls :: "call list"
  chosenIE :: string

type_synonym 'a prog = "run_state \<Rightarrow> 'a outcome \<times> run_state"

definition sreturn :: "'a \<Rightarrow> 'a prog" where
  "sreturn a = (\<lambda>s. (Returns a, s))"

definition lift :: "'a outcome \<Rightarrow> 'a prog" where
  "lift r = (\<lambda>s. (r, s))"

definition sbind :: "'a prog \<Rightarrow> ('a \<Rightarrow> 'b prog) \<Rightarrow> 'b prog" where
  "sbind m f =
     (\<lambda>s. case m s of
             (Returns a, s') \<Rightarrow> f a s'
           | (Throws e, s') \<Rightarrow> (Throws e, s')
           | (Undefined, s') \<Rightarrow> (Undefined, s'))"

definition sthen :: "unit prog \<Rightarrow> 'a prog \<Rightarrow> 'a prog" where
  "sthen m n = sbind m (\<lambda>_. n)"

primrec seq :: "unit prog list \<Rightarrow> unit prog" where
  "seq [] = sreturn ()"
| "seq (m # ms) = sthen m (seq ms)"

definition cout :: "string \<Rightarrow> unit prog" where
  "cout msg = (\<lambda>s. (Returns (), s\<lparr>cout_log := cout_log s @ [msg]\<rparr>))"

definition call :: "call \<Rightarrow> unit prog" where
  "call c = (\<lambda>s. (Returns (), s\<lparr>calls := calls s @ [c]\<rparr>))"

definition call_if :: "bool \<Rightarrow> call \<Rightarrow> string \<Rightarrow> unit prog" where
  "call_if ok c what = (if ok then call c else lift (Throws (Exception what)))"

definition set_chosenIE :: "string \<Rightarrow> unit prog" where
  "set_chosenIE v = (\<lambda>s. (Returns (), s\<lparr>chosenIE := v\<rparr>))"

definition get_chosenIE :: "string prog" where
  "get_chosenIE = (\<lambda>s. (Returns (chosenIE s), s))"

text \<open>
  Modelled from the spec: \<^verbatim>\<open>WholeSlideImage::has_renderer\<close> and
  \<^verbatim>\<open>WholeSlideImage::insert_renderer\<close> are not among the sources; the specification
  (section 4.3) has each run register its terminal stage on the target image under the
  model's name, the registration key being the guard against a second run.
\<close>

definition has_renderer :: "string \<Rightarrow> bool prog" where
  "has_renderer name = (\<lambda>s. (Returns (renderers s name \<noteq> None), s))"

definition insert_renderer :: "string \<Rightarrow> string \<Rightarrow> run_renderer \<Rightarrow> unit prog" where
  "insert_renderer name type_name r =
     (\<lambda>s. (Returns (), s\<lparr>renderers := (renderers s)(name \<mapsto> (type_name, r))\<rparr>))"

text \<open>
  An \<^verbatim>\<open>int\<close> result: overflow of signed arithmetic is undefined behaviour.
\<close>

definition int_result :: "int \<Rightarrow> int outcome" where
  "int_result v = (if INT_MIN \<le> v \<and> v \<le> INT_MAX then Returns v else Undefined)"

subsection \<open>Lines 288--298: the patch level from the magnifications\<close>

text \<open>
  \<^verbatim>\<open>(int)(std::log(magn_lvl / (float)m) / std::log(std::round(d)))\<close>. The float
  arithmetic is modelled over the reals (no rounding error, no overflow). The
  IEEE special values are kept as the source meets them: a zero divisor or a non-positive
  argument of \<^verbatim>\<open>log\<close> makes the quotient infinite or not a number, and converting such a
  value to \<^verbatim>\<open>int\<close> is undefined behaviour, except that a finite numerator over
  \<^verbatim>\<open>log(0) = -inf\<close> is zero. \<^verbatim>\<open>std::round\<close> rounds halves away from zero; the cast
  \<^verbatim>\<open>(int)\<close> drops the fraction (rounds toward zero).
\<close>

definition round_half_away :: "real \<Rightarrow> int" where
  "round_half_away v = (if 0 \<le> v then \<lfloor>v + 1 / 2\<rfloor> else \<lceil>v - 1 / 2\<rceil>)"

definition cast_int :: "real \<Rightarrow> int outcome" where
  "cast_int v = int_result (if 0 \<le> v then \<lfloor>v\<rfloor> else \<lceil>v\<rceil>)"

definition patch_level_of :: "real \<Rightarrow> int \<Rightarrow> real \<Rightarrow> int outcome" where
  "patch_level_of magn m d =
     (let ratio = magn / real_of_int m; base = round_half_away d in
      if m = 0 \<or> ratio \<le> 0 \<or> base < 0 \<or> base = 1 then Undefined
      else if base = 0 then Returns 0
      else cast_int (ln ratio / ln (real_of_int base)))"

definition magnification_warning :: string where
  "magnification_warning =
     ''magnification_level was not properly defined in the model config file. Defaults to using image plane 0.''"

definition stage_patch_level :: "fast_ext \<Rightarrow> run_env \<Rightarrow> int prog" where
  "stage_patch_level x E =
     (if mget (modelMetadata E) ''magnification_level'' \<noteq> [] then
        sbind (lift (stoi (mget (modelMetadata E) ''magnification_level''))) (\<lambda>m.
        sbind (lift (x_stof x (mget (wsi_metadata E) ''openslide.level[1].downsample''))) (\<lambda>d.
        lift (patch_level_of (magn_lvl E) m d)))
      else sthen (cout magnification_warning) (sreturn 0))"


subsection \<open>Lines 306--343: the pyramid level of a low-resolution run\<close>

text \<open>
  The \<^verbatim>\<open>for\<close> loop of lines 315--324: the value it assigns to \<^verbatim>\<open>currLvl\<close> when it
  breaks at level \<open>i\<close>, \<open>None\<close> when it runs to the end (\<^verbatim>\<open>breakFlag\<close> stays false).
\<close>

fun level_scan :: "metadata \<Rightarrow> int \<Rightarrow> int \<Rightarrow> nat list \<Rightarrow> int option outcome" where
  "level_scan md inputWidth inputHeight [] = Returns None"
| "level_scan md inputWidth inputHeight (i # rest) =
     obind (stoi (mget md (''openslide.level['' @ to_string i @ ''].width''))) (\<lambda>w.
     obind (int_result (inputWidth * 2)) (\<lambda>w2.
       if w \<le> w2 then Returns (Some (int i - 1))
       else
         obind (stoi (mget md (''openslide.level['' @ to_string i @ ''].height''))) (\<lambda>h.
         obind (int_result (inputHeight * 2)) (\<lambda>h2.
           if h \<le> h2 then Returns (Some (int i - 1))
           else level_scan md inputWidth inputHeight rest))))"

text \<open>
  Lines 311--327: \<^verbatim>\<open>levelCount\<close>, \<^verbatim>\<open>inputWidth\<close>, \<^verbatim>\<open>inputHeight\<close>, the loop, and then
  line 327, \<^verbatim>\<open>currLvl = levelCount - 1;\<close>, which is not guarded (the guard
  \<^verbatim>\<open>if (!breakFlag)\<close> of lines 325--326 is commented out). The result is the value of
  \<^verbatim>\<open>currLvl\<close> after line 327 with the two input sizes.
\<close>

definition low_res_level :: "metadata \<Rightarrow> metadata \<Rightarrow> (int \<times> int \<times> int) outcome" where
  "low_res_level md mm =
     obind (stoi (mget md ''openslide.level-count'')) (\<lambda>levelCount.
     obind (stoi (mget mm ''input_img_size_x'')) (\<lambda>inputWidth.
     obind (stoi (mget mm ''input_img_size_y'')) (\<lambda>inputHeight.
     obind (level_scan md inputWidth inputHeight [0..<nat levelCount]) (\<lambda>scanned.
     obind (int_result (levelCount - 1)) (\<lambda>currLvl.
       Returns (currLvl, inputWidth, inputHeight))))))"

datatype level_choice = Uninitialised | Chosen int | Abandon

definition stage_low_res :: "fast_ext \<Rightarrow> run_env \<Rightarrow> level_choice prog" where
  "stage_low_res x E =
     (if mget (modelMetadata E) ''resolution'' = ''low'' then
        sbind (lift (low_res_level (wsi_metadata E) (modelMetadata E))) (\<lambda>(currLvl, inputWidth, inputHeight).
          if currLvl < 0 then
            sthen (cout ''Automatic chosen patch level for low_res is invalid: '') (sreturn Abandon)
          else
            sthen (seq [call_if (x_getLevelAsImage_ok x currLvl) (Access_getLevelAsImage currLvl)
                          ''getLevelAsImage'',
                        call (Resizer_setInputData currLvl),
                        call (Resizer_setWidth inputWidth),
                        call (Resizer_setHeight inputHeight)])
                  (sreturn (Chosen currLvl)))
      else sreturn Uninitialised)"

subsection \<open>Lines 363--474: the network and its inference engine\<close>

definition network_class :: "metadata \<Rightarrow> string" where
  "network_class mm =
     (if mget mm ''problem'' = ''segmentation'' \<and> mget mm ''resolution'' = ''high''
        then ''SegmentationNetwork''
      else if mget mm ''problem'' = ''segmentation'' \<and> mget mm ''resolution'' = ''low''
        then ''SegmentationNetwork''
      else ''NeuralNetwork'')"

definition setInferenceEngine :: "fast_ext \<Rightarrow> string \<Rightarrow> unit prog" where
  "setInferenceEngine x name =
     call_if (x_engine_available x name) (Net_setInferenceEngine name) ''setInferenceEngine''"

text \<open>
  \<^verbatim>\<open>network->getInferenceEngine()\<close>: the engine of the latest
  \<^verbatim>\<open>setInferenceEngine\<close>, by the name it was asked for; none has been set: a null
  pointer, whose use is undefined behaviour.
\<close>

definition current_engine :: "call list \<Rightarrow> string option" where
  "current_engine cs =
     foldl (\<lambda>r c. case c of Net_setInferenceEngine n \<Rightarrow> Some n | _ \<Rightarrow> r) None cs"

definition getInferenceEngine :: "string prog" where
  "getInferenceEngine =
     (\<lambda>s. case current_engine (calls s) of
             None \<Rightarrow> (Undefined, s)
           | Some n \<Rightarrow> (Returns n, s))"

definition no_cpu_device_diagnostic :: string where
  "no_cpu_device_diagnostic =
     ''CPU only was selected, but was not able to find any CPU devices...''"

text \<open>Lines 395--419: the model's CPU flag.\<close>

definition stage_cpu_override :: "fast_ext \<Rightarrow> run_env \<Rightarrow> string list \<Rightarrow> unit prog" where
  "stage_cpu_override x E acceptedModels =
     sbind (lift (stoi (mget (modelMetadata E) ''cpu''))) (\<lambda>cpu.
       if cpu = 1 then
         (if ''.pb'' \<in> set acceptedModels \<and> ''TensorFlow'' \<in> set (inference_engines E) then
            seq [cout ''GPU is disabled! (with TensorFlow)'',
                 setInferenceEngine x ''TensorFlow'',
                 call Net_setDeviceType_CPU]
          else if ''.xml'' \<in> set acceptedModels \<and> ''OpenVINO'' \<in> set (inference_engines E) then
            seq [cout ''GPU is disabled! (with OpenVINO)'',
                 setInferenceEngine x ''OpenVINO'',
                 call Net_setDeviceType_CPU]
          else cout no_cpu_device_diagnostic)
       else sreturn ())"

text \<open>Lines 421--427: the engine the model's metadata names under the key \<^verbatim>\<open>IE\<close>.\<close>

definition stage_preselected_IE :: "fast_ext \<Rightarrow> run_env \<Rightarrow> unit prog" where
  "stage_preselected_IE x E =
     (if \<not> (modelMetadata E ''IE'' = None \<or> mget (modelMetadata E) ''IE'' = ''none'') then
        seq [cout (''Preselected IE was used: '' @ mget (modelMetadata E) ''IE''),
             setInferenceEngine x (mget (modelMetadata E) ''IE''),
             sbind getInferenceEngine (\<lambda>e. set_chosenIE (x_preferred_extension x e))]
      else sreturn ())"

text \<open>Lines 429--473: input and output nodes by engine, the format, and the load.\<close>

definition output_node_stage :: "run_env \<Rightarrow> unit prog" where
  "output_node_stage E =
     (let mm = modelMetadata E in
      if mget mm ''problem'' = ''classification'' then
        sbind (lift (stoi (mget mm ''nb_classes''))) (\<lambda>n.
          call (Net_setOutputNode (mget mm ''output_node'') [1, n]))
      else if mget mm ''problem'' = ''segmentation'' then
        sbind (lift (stoi (mget mm ''input_img_size_y''))) (\<lambda>h.
        sbind (lift (stoi (mget mm ''input_img_size_x''))) (\<lambda>w.
        sbind (lift (stoi (mget mm ''nb_classes''))) (\<lambda>n.
          call (Net_setOutputNode (mget mm ''output_node'') [1, h, w, n]))))
      else if mget mm ''problem'' = ''object_detection'' then
        sbind (lift (stoi (mget mm ''nb_classes''))) (\<lambda>n.
          call (Net_setOutputNode (mget mm ''output_node'') [1, n]))
      else sreturn ())"

definition stage_nodes_and_load :: "fast_ext \<Rightarrow> run_env \<Rightarrow> unit prog" where
  "stage_nodes_and_load x E =
     (let mm = modelMetadata E in
      sbind getInferenceEngine (\<lambda>asked.
      sbind get_chosenIE (\<lambda>chosen.
      let engine = x_engine_getName x asked in
      seq [if take 10 engine = ''TensorFlow'' then
             sbind (lift (stoi (mget mm ''input_img_size_y''))) (\<lambda>h.
             sbind (lift (stoi (mget mm ''input_img_size_x''))) (\<lambda>w.
             sbind (lift (stoi (mget mm ''nb_channels''))) (\<lambda>c.
               sthen (call (Net_setInputNode (mget mm ''input_node'') [1, h, w, c]))
                     (output_node_stage E))))
           else if engine = ''TensorRT'' \<and> chosen = ''uff'' then
             sbind (lift (stoi (mget mm ''nb_channels''))) (\<lambda>c.
             sbind (lift (stoi (mget mm ''input_img_size_y''))) (\<lambda>h.
             sbind (lift (stoi (mget mm ''input_img_size_y''))) (\<lambda>h'.
             sbind (lift (stoi (mget mm ''nb_classes''))) (\<lambda>n.
               seq [call (Net_setInputNode (mget mm ''input_node'') [1, c, h, h']),
                    call (Net_setOutputNode (mget mm ''output_node'') [1, n])]))))
           else sreturn (),
           if engine \<noteq> ''TensorRT'' \<and> engine \<noteq> ''OpenVINO'' then
             set_chosenIE (x_preferred_extension x asked)
           else sreturn (),
           sbind get_chosenIE (\<lambda>ext.
             let path = models_filepath E @ ''/'' @ process_name E @ ''/'' @ process_name E
                          @ ''.'' @ ext
             in call_if (x_load_ok x asked path) (Net_load path) ''load'')])))"

subsection \<open>Lines 475--560: the network's input and the scale factor\<close>

definition stage_input :: "fast_ext \<Rightarrow> run_env \<Rightarrow> int \<Rightarrow> unit prog" where
  "stage_input x E patch_lvl_model =
     (let mm = modelMetadata E in
      if mget mm ''resolution'' = ''low'' then
        seq [call_if (x_update_ok x ''resizer'') Resizer_update ''update'',
             call Net_setInputData]
      else
        seq [if mget mm ''tissue_threshold'' = ''none'' then
               cout ''No tissue segmentation filtering will be applied before this analysis.''
             else if mget mm ''tissue_threshold'' \<noteq> [] then
               seq [cout (''Threshold was defined: '' @ mget mm ''tissue_threshold''),
                    sbind (lift (stoi (mget mm ''tissue_threshold''))) (\<lambda>t.
                      call (Tissue_setThreshold t)),
                    call Gen_setInputConnection_tissue,
                    cout ''tissue_threshold was defined, so is performing thresholding as preprocessing step.'']
             else
               cout ''The tissue_threshold has not been properly defined in the model config file, and thus the method will use any existing segmentation masks as filtering (if available).'',
             sbind (lift (stoi (mget mm ''input_img_size_y''))) (\<lambda>h.
             sbind (lift (stoi (mget mm ''input_img_size_x''))) (\<lambda>w.
               call (Gen_setPatchSize h w))),
             call (Gen_setPatchLevel patch_lvl_model),
             if mget mm ''mask_threshold'' = [] then
               cout ''No mask_threshold variable exists. Defaults to 0.5.''
             else
               seq [cout (''Setting mask_threshold to: '' @ mget mm ''mask_threshold''),
                    sbind (lift (x_stof x (mget mm ''mask_threshold''))) (\<lambda>t.
                      call (Gen_setMaskThreshold t))],
             if mget mm ''patch_overlap'' = [] then
               cout ''No patch_overlap variable exists. Defaults to 0.''
             else
               sbind (lift (x_stof x (mget mm ''patch_overlap''))) (\<lambda>t. call (Gen_setOverlap t)),
             call Gen_setInputData,
             call Net_setInputConnection])"

definition scale_factor_of :: "fast_ext \<Rightarrow> metadata \<Rightarrow> (int \<times> int) outcome" where
  "scale_factor_of x mm =
     (let scale_factor = x_splitCustom x (mget mm ''scale_factor'') ''/'' in
      obind (vec_at scale_factor 0) (\<lambda>a.
      obind (stoi a) (\<lambda>n.
      obind (vec_at scale_factor 1) (\<lambda>b.
      obind (stoi b) (\<lambda>d. Returns (n, d))))))"

definition stage_scale_factor :: "fast_ext \<Rightarrow> run_env \<Rightarrow> unit prog" where
  "stage_scale_factor x E =
     (if mget (modelMetadata E) ''scale_factor'' = [] then
        cout ''scale_factor not defined. Defaults to using using no intensity normalization/scaling in preprocessing.''
      else
        sbind (lift (scale_factor_of x (modelMetadata E))) (\<lambda>(n, d).
          call (Net_setScaleFactor n d)))"

subsection \<open>Lines 562--802: the renderer, by problem and resolution\<close>

fun color_loop :: "fast_ext \<Rightarrow> string list \<Rightarrow> nat list \<Rightarrow> (int \<times> int \<times> int) list outcome" where
  "color_loop x colors [] = Returns []"
| "color_loop x colors (i # rest) =
     obind (vec_at colors i) (\<lambda>color.
     let rgb = x_splitCustom x color '','' in
     obind (vec_at rgb 0) (\<lambda>r0. obind (stoi r0) (\<lambda>r.
     obind (vec_at rgb 1) (\<lambda>g0. obind (stoi g0) (\<lambda>g.
     obind (vec_at rgb 2) (\<lambda>b0. obind (stoi b0) (\<lambda>b.
     obind (color_loop x colors rest) (\<lambda>others.
       Returns ((r, g, b) # others)))))))))"

definition class_colors :: "fast_ext \<Rightarrow> metadata \<Rightarrow> (int \<times> int \<times> int) list outcome" where
  "class_colors x mm =
     (let colors = x_splitCustom x (mget mm ''class_colors'') '';'' in
      obind (stoi (mget mm ''nb_classes'')) (\<lambda>n. color_loop x colors [0..<nat n]))"

definition tail_classification_high :: "fast_ext \<Rightarrow> run_env \<Rightarrow> unit prog" where
  "tail_classification_high x E =
     (let mm = modelMetadata E in
      sbind (lift (stoi (mget mm ''interpolation''))) (\<lambda>interpolation.
      sbind (lift (class_colors x mm)) (\<lambda>colors.
        insert_renderer (mget mm ''model_name'') ''HeatmapRenderer''
          (HeatmapRenderer interpolation colors))))"

definition tail_segmentation_high :: "fast_ext \<Rightarrow> run_env \<Rightarrow> unit prog" where
  "tail_segmentation_high x E =
     (let mm = modelMetadata E in
      sbind (lift (class_colors x mm)) (\<lambda>colors.
        insert_renderer (mget mm ''model_name'') ''SegmentationRenderer''
          (SegmentationRenderer colors)))"

text \<open>
  Lines 685--703: each line of the anchor file is cut at blanks and resized to six
  entries; each entry is cut at the comma into a pair; the six pairs make two levels of
  three anchors.
\<close>

definition resize6 :: "string list \<Rightarrow> string list" where
  "resize6 v = take 6 v @ replicate (6 - length v) []"

fun anchor_pairs :: "fast_ext \<Rightarrow> string list \<Rightarrow> (int \<times> int) list outcome" where
  "anchor_pairs x [] = Returns []"
| "anchor_pairs x (entry # rest) =
     (let currentPair = x_splitCustom x entry '','' in
      obind (vec_at currentPair 0) (\<lambda>a. obind (stoi a) (\<lambda>w.
      obind (vec_at currentPair 1) (\<lambda>b. obind (stoi b) (\<lambda>h.
      obind (anchor_pairs x rest) (\<lambda>others. Returns ((w, h) # others)))))))"

fun read_anchors :: "fast_ext \<Rightarrow> string list \<Rightarrow> (int \<times> int) list list outcome" where
  "read_anchors x [] = Returns []"
| "read_anchors x (anchorStr # rest) =
     obind (anchor_pairs x (resize6 (x_splitCustom x anchorStr '' ''))) (\<lambda>pairs.
     obind (read_anchors x rest) (\<lambda>others.
       Returns (take 3 pairs # drop 3 pairs # others)))"

text \<open>
  Lines 671--735, object detection at high resolution: a second network
  \<^verbatim>\<open>currNetwork\<close> is made and configured; its engine is set by the constant
  \<^verbatim>\<open>"OpenVINO"\<close>.
\<close>

definition tail_object_detection :: "fast_ext \<Rightarrow> run_env \<Rightarrow> unit prog" where
  "tail_object_detection x E =
     (let mm = modelMetadata E;
          path = models_filepath E @ ''/'' @ process_name E @ ''/'' @ process_name E @ ''.''
                   @ x_preferred_extension x ''OpenVINO''
      in
      seq [if mget mm ''pred_threshold'' = [] then
             cout ''No pred_threshold variable exists. Defaults to 0.1.''
           else
             sbind (lift (x_stof x (mget mm ''nms_threshold''))) (\<lambda>t. call (BB_setThreshold t)),
           sbind (lift (read_anchors x (anchors_file E))) (\<lambda>anchors. call (BB_setAnchors anchors)),
           sbind (lift (scale_factor_of x mm)) (\<lambda>(n, d). call (BB_setScaleFactor n d)),
           call_if (x_engine_available x ''OpenVINO'') (BB_setInferenceEngine ''OpenVINO'')
             ''setInferenceEngine'',
           call_if (x_load_ok x ''OpenVINO'' path) (BB_load path) ''load'',
           call BB_setInputConnection,
           if mget mm ''nms_threshold'' = [] then
             cout ''No nms_threshold variable exists. Defaults to 0.5.''
           else
             sbind (lift (x_stof x (mget mm ''nms_threshold''))) (\<lambda>t. call (NMS_setThreshold t)),
           insert_renderer (mget mm ''model_name'') ''BoundingBoxRenderer'' BoundingBoxRenderer])"

definition tail_segmentation_low :: "fast_ext \<Rightarrow> run_env \<Rightarrow> level_choice \<Rightarrow> unit prog" where
  "tail_segmentation_low x E currLvl =
     (let mm = modelMetadata E in
      case currLvl of
        Chosen l \<Rightarrow>
          seq [call_if (x_getLevelAsImage_ok x l) (Access_getLevelAsImage l) ''getLevelAsImage'',
               call_if (x_update_ok x ''resizer2'') Resizer2_update ''update'',
               sbind (lift (class_colors x mm)) (\<lambda>colors.
                 seq [call_if (x_update_ok x ''someRenderer'') Renderer_update ''update'',
                      insert_renderer (mget mm ''model_name'') ''SegmentationRenderer''
                        (SegmentationRenderer colors)])]
      | _ \<Rightarrow> lift Undefined)"

definition stage_tail :: "fast_ext \<Rightarrow> run_env \<Rightarrow> level_choice \<Rightarrow> unit prog" where
  "stage_tail x E currLvl =
     (let mm = modelMetadata E in
      if mget mm ''problem'' = ''classification'' \<and> mget mm ''resolution'' = ''high'' then
        tail_classification_high x E
      else if mget mm ''problem'' = ''segmentation'' \<and> mget mm ''resolution'' = ''high'' then
        tail_segmentation_high x E
      else if mget mm ''problem'' = ''object_detection'' \<and> mget mm ''resolution'' = ''high'' then
        tail_object_detection x E
      else if mget mm ''problem'' = ''segmentation'' \<and> mget mm ''resolution'' = ''low'' then
        tail_segmentation_low x E currLvl
      else sreturn ())"

subsection \<open>The run\<close>

text \<open>
  Lines 345--803, from the listing of the model's directory to the renderer. When the
  resolver returns the empty pair, \<^verbatim>\<open>checkFlag\<close> is false and the rest is skipped.
\<close>

definition run_network :: "fast_ext \<Rightarrow> run_env \<Rightarrow> int \<Rightarrow> level_choice \<Rightarrow> unit prog" where
  "run_network x E patch_lvl_model currLvl =
     sbind (lift (acceptedModels_of (x_splitCustom x) (process_name E) (model_files E)))
       (\<lambda>acceptedModels.
     sthen (call (Net_New (network_class (modelMetadata E))))
    (sthen (set_chosenIE [])
    (sbind (lift (selectOptimalInferenceEngine (x_splitCustom x) (model_files E)
                    (inference_engines E) (process_name E))) (\<lambda>optimal_set.
       if snd optimal_set = [] then sreturn ()
       else
         seq [setInferenceEngine x (fst optimal_set),
              set_chosenIE (snd optimal_set),
              cout ''Model was found.'',
              stage_cpu_override x E acceptedModels,
              stage_preselected_IE x E,
              stage_nodes_and_load x E,
              stage_input x E patch_lvl_model,
              stage_scale_factor x E,
              stage_tail x E currLvl]))))"

text \<open>The body of the \<^verbatim>\<open>try\<close> block, lines 275--805.\<close>

definition pixelClassifier_try :: "fast_ext \<Rightarrow> run_env \<Rightarrow> unit prog" where
  "pixelClassifier_try x E =
     sbind (has_renderer (mget (modelMetadata E) ''model_name'')) (\<lambda>present.
       if present then sreturn ()
       else
         sbind (stage_patch_level x E) (\<lambda>patch_lvl_model.
         sbind (stage_low_res x E) (\<lambda>currLvl.
           if currLvl = Abandon then sreturn ()
           else
             sthen (run_network x E patch_lvl_model currLvl)
                   (cout ''Inference thread is finished...''))))"

text \<open>
  \<^verbatim>\<open>ProcessManager::pixelClassifier\<close>: the \<^verbatim>\<open>try\<close> block and its handler
  \<^verbatim>\<open>catch(const std::exception& e)\<close>, lines 807--810.
\<close>

definition pixelClassifier :: "fast_ext \<Rightarrow> run_env \<Rightarrow> unit prog" where
  "pixelClassifier x E =
     (\<lambda>s. case pixelClassifier_try x E s of
             (Throws e, s') \<Rightarrow>
               (Returns (), s'\<lparr>cout_log := cout_log s' @ [''Exception caught in the inference process: '']\<rparr>)
           | (Returns u, s') \<Rightarrow> (Returns u, s')
           | (Undefined, s') \<Rightarrow> (Undefined, s'))"

subsection \<open>A host and a model for concrete runs\<close>

text \<open>
  An instance of the collaborators: \<open>split_on\<close> for \<^verbatim>\<open>splitCustom\<close>; a \<^verbatim>\<open>stof\<close> that
  reads the integers \<open>stoi\<close> reads; the three engines TensorRT, OpenVINO and TensorFlow
  available under their own names, preferring \<^verbatim>\<open>onnx\<close>, \<^verbatim>\<open>xml\<close> and \<^verbatim>\<open>pb\<close>; every
  load, level access and update succeeds.
\<close>

definition stof_int :: "string \<Rightarrow> real outcome" where
  "stof_int str = obind (stoi str) (\<lambda>i. Returns (real_of_int i))"

definition host :: fast_ext where
  "host =
     \<lparr>x_splitCustom = split_on,
      x_stof = stof_int,
      x_engine_available = (\<lambda>name. name \<in> set [''TensorRT'', ''OpenVINO'', ''TensorFlow'']),
      x_engine_getName = (\<lambda>name. name),
      x_preferred_extension =
        (\<lambda>name. if name = ''OpenVINO'' then ''xml'' else if name = ''TensorFlow'' then ''pb''
                 else ''onnx''),
      x_load_ok = (\<lambda>name path. True),
      x_getLevelAsImage_ok = (\<lambda>level. True),
      x_update_ok = (\<lambda>stage. True)\<rparr>"

definition fresh :: run_state where
  "fresh = \<lparr>renderers = Map.empty, cout_log = [], calls = [], chosenIE = []\<rparr>"

text \<open>
  The object-detection model of the concrete runs: shipped as \<^verbatim>\<open>onnx\<close> and \<^verbatim>\<open>xml\<close>, on a
  host with the TensorRT and OpenVINO engines, so that the resolver answers
  (TensorRT, onnx); its CPU flag is \<^verbatim>\<open>0\<close>.
\<close>

definition detection_run :: run_env where
  "detection_run =
     \<lparr>models_filepath = ''/m'', inference_engines = [''TensorRT'', ''OpenVINO''],
      process_name = ''det'',
      model_files = [''det.onnx'', ''det.xml'', ''det.txt'', ''det.anchors''],
      modelMetadata =
        [''model_name'' \<mapsto> ''det'', ''problem'' \<mapsto> ''object_detection'',
         ''resolution'' \<mapsto> ''high'', ''cpu'' \<mapsto> ''0'', ''input_img_size_x'' \<mapsto> ''256'',
         ''input_img_size_y'' \<mapsto> ''256'', ''scale_factor'' \<mapsto> ''1/255''],
      wsi_metadata = Map.empty, magn_lvl = 40,
      anchors_file = [''10,14 23,27 37,58 81,82 135,169 344,319'']\<rparr>"

text \<open>
  A slide with three pyramid levels, 4096, 1024 and 256 pixels square, each a quarter of
  the one before; a segmentation model for the low resolution with a 256 by 256 input;
  and variants of the detection run: on that slide with the model's magnification level
  set to 1; with the CPU flag set, and with no CPU field; with the engine OpenVINO pinned,
  and pinned while no model file is on disk.
\<close>

definition pyramid3 :: metadata where
  "pyramid3 =
     [''openslide.level-count'' \<mapsto> ''3'',
      ''openslide.level[0].width'' \<mapsto> ''4096'', ''openslide.level[0].height'' \<mapsto> ''4096'',
      ''openslide.level[1].width'' \<mapsto> ''1024'', ''openslide.level[1].height'' \<mapsto> ''1024'',
      ''openslide.level[2].width'' \<mapsto> ''256'', ''openslide.level[2].height'' \<mapsto> ''256'',
      ''openslide.level[1].downsample'' \<mapsto> ''4'']"

definition low_res_model :: metadata where
  "low_res_model =
     [''model_name'' \<mapsto> ''seg'', ''problem'' \<mapsto> ''segmentation'', ''resolution'' \<mapsto> ''low'',
      ''input_img_size_x'' \<mapsto> ''256'', ''input_img_size_y'' \<mapsto> ''256'']"

definition low_res_run :: run_env where
  "low_res_run = detection_run\<lparr>modelMetadata := low_res_model, wsi_metadata := pyramid3\<rparr>"






subsection \<open>What a piece of the run leaves alone\<close>

text \<open>
  Two properties of a piece of the run, used to follow the renderer set through it: the
  piece never changes the set; the piece changes it at most when it returns.
\<close>

definition keeps :: "'a prog \<Rightarrow> bool" where
  "keeps m = (\<forall>s. renderers (snd (m s)) = renderers s)"

definition keeps_on_fail :: "'a prog \<Rightarrow> bool" where
  "keeps_on_fail m = (\<forall>s. (\<forall>u. fst (m s) \<noteq> Returns u) \<longrightarrow> renderers (snd (m s)) = renderers s)"

text \<open>A piece of the run that only ever appends to the calls made so far.\<close>

definition grows :: "'a prog \<Rightarrow> bool" where
  "grows m = (\<forall>s. prefix (calls s) (calls (snd (m s))))"

section \<open>Theorems\<close>

lemma obind_simps [simp]:
  "obind (Returns a) f = f a"
  "obind (Throws e) f = Throws e"
  "obind Undefined f = Undefined"
  by (simp_all add: obind_def)

subsection \<open>C1: the engine resolver\<close>

lemma select_engine_pair_resolve:
  "select_engine_pair fs bs = resolve_spec (set fs) (set bs)"
  by (simp add: select_engine_pair_def resolve_spec_def priority_order_def)

text \<open>
  C1. For every list of available format extensions and every list of installed
  backends, the resolver returns the first pair of the priority order
  (TensorRT, onnx), (TensorRT, uff), (OpenVINO, onnx), (OpenVINO, xml), (TensorFlow, pb)
  whose format is among the formats and whose backend is among the backends, and the
  empty pair when there is none. The result is a function of the two \<^emph>\<open>sets\<close> alone, so
  the order in which either is listed does not matter; and for the formats onnx, xml with
  the backend OpenVINO it is (OpenVINO, onnx), in either listing order.
\<close>

theorem C1_resolver_priority:
  "select_engine_pair fs bs = resolve_spec (set fs) (set bs)
   \<and> select_engine_pair [''.onnx'', ''.xml''] [''OpenVINO''] = (''OpenVINO'', ''onnx'')
   \<and> select_engine_pair [''.xml'', ''.onnx''] [''OpenVINO''] = (''OpenVINO'', ''onnx'')
   \<and> selectOptimalInferenceEngine sp files bs name =
       obind (acceptedModels_of sp name files) (\<lambda>fs'. Returns (resolve_spec (set fs') (set bs)))"
  by (simp add: select_engine_pair_resolve selectOptimalInferenceEngine_def)
    (simp add: resolve_spec_def priority_order_def)

subsection \<open>Evaluating a run\<close>

lemmas run_eval =
  pixelClassifier_def pixelClassifier_try_def run_network_def stage_patch_level_def stage_low_res_def
  low_res_level_def stage_cpu_override_def stage_preselected_IE_def stage_nodes_and_load_def
  output_node_stage_def stage_input_def stage_scale_factor_def scale_factor_of_def stage_tail_def
  tail_classification_high_def tail_segmentation_high_def tail_object_detection_def
  tail_segmentation_low_def class_colors_def resize6_def network_class_def
  setInferenceEngine_def getInferenceEngine_def current_engine_def
  selectOptimalInferenceEngine_def select_engine_pair_def
  sreturn_def lift_def sbind_def sthen_def cout_def call_def call_if_def set_chosenIE_def
  get_chosenIE_def has_renderer_def insert_renderer_def int_result_def INT_MIN_def INT_MAX_def
  mget_def stoi_def isspace_def isdigit_def digits_val_def digit_val_def
  vec_at_def vec_front_def vec_back_def split_on_def host_def stof_int_def fresh_def
  magnification_warning_def no_cpu_device_diagnostic_def Let_def


lemmas prog_simps = sbind_def sthen_def lift_def cout_def call_def call_if_def sreturn_def
  set_chosenIE_def get_chosenIE_def insert_renderer_def

subsection \<open>C2: the pyramid level of a low-resolution run\<close>

lemma upt_0_3: "[0..<3] = [0, 1, 2]"
  by (simp add: upt_rec_numeral upt_conv_Cons)

lemmas scan_eval = upt_0_3 low_res_level_def pyramid3_def low_res_model_def mget_def stoi_def isspace_def
  isdigit_def digits_val_def digit_val_def int_result_def INT_MIN_def INT_MAX_def
  to_string.simps digit_char_def

text \<open>
  C2, evaluated on a slide with levels of 4096, 1024 and 256 pixels and a model input of
  256 by 256. The scan of lines 315--324 breaks at level 2, the first whose width is at
  most 512, and assigns \<^verbatim>\<open>currLvl = 1\<close>, the level the claim names. Line 327 then
  overwrites it: the level the run takes is \<^verbatim>\<open>levelCount - 1 = 2\<close>, and that is the
  level whose image is read and resized.
\<close>

theorem C2_level_overwritten:
  "level_scan pyramid3 256 256 [0..<3] = Returns (Some 1)
   \<and> low_res_level pyramid3 low_res_model = Returns (2, 256, 256)
   \<and> stage_low_res host low_res_run fresh =
       (Returns (Chosen 2),
        fresh\<lparr>calls := [Access_getLevelAsImage 2, Resizer_setInputData 2,
                          Resizer_setWidth 256, Resizer_setHeight 256]\<rparr>)"
  by (simp add: scan_eval stage_low_res_def low_res_run_def detection_run_def host_def fresh_def
      prog_simps)

subsection \<open>C3: a failed run registers no renderer\<close>

lemma keeps_sreturn: "keeps (sreturn a)" by (simp add: keeps_def sreturn_def)
lemma keeps_lift: "keeps (lift r)" by (simp add: keeps_def lift_def)
lemma keeps_cout: "keeps (cout msg)" by (simp add: keeps_def cout_def)
lemma keeps_call: "keeps (call c)" by (simp add: keeps_def call_def)
lemma keeps_call_if: "keeps (call_if ok c what)" by (simp add: call_if_def keeps_call keeps_lift)
lemma keeps_set_chosenIE: "keeps (set_chosenIE v)" by (simp add: keeps_def set_chosenIE_def)
lemma keeps_get_chosenIE: "keeps get_chosenIE" by (simp add: keeps_def get_chosenIE_def)
lemma keeps_has_renderer: "keeps (has_renderer n)" by (simp add: keeps_def has_renderer_def)
lemma keeps_getInferenceEngine: "keeps getInferenceEngine"
  by (simp add: keeps_def getInferenceEngine_def split: option.splits)
lemma keeps_setInferenceEngine: "keeps (setInferenceEngine x n)"
  by (simp add: setInferenceEngine_def keeps_call_if)

lemma keeps_sbind:
  assumes "keeps m" and "\<And>a. keeps (f a)"
  shows "keeps (sbind m f)"
  unfolding keeps_def
proof
  fix s
  obtain r s1 where ms: "m s = (r, s1)" by (cases "m s")
  have r1: "renderers s1 = renderers s" using assms(1) ms by (auto simp: keeps_def dest: spec[of _ s])
  show "renderers (snd (sbind m f s)) = renderers s"
  proof (cases r)
    case (Returns a)
    have "renderers (snd (f a s1)) = renderers s1" using assms(2)[of a] by (simp add: keeps_def)
    with Returns ms r1 show ?thesis by (simp add: sbind_def)
  qed (use ms r1 in \<open>simp_all add: sbind_def\<close>)
qed

lemma keeps_sthen: "keeps m \<Longrightarrow> keeps n \<Longrightarrow> keeps (sthen m n)"
  by (simp add: sthen_def keeps_sbind)

lemma keeps_seq_Nil: "keeps (seq [])" by (simp add: keeps_sreturn)
lemma keeps_seq_Cons: "keeps m \<Longrightarrow> keeps (seq ms) \<Longrightarrow> keeps (seq (m # ms))"
  by (simp add: keeps_sthen)
lemma keeps_if: "keeps a \<Longrightarrow> keeps b \<Longrightarrow> keeps (if c then a else b)" by simp
lemma keeps_case_prod: "(\<And>a b. keeps (f a b)) \<Longrightarrow> keeps (case_prod f p)"
  by (cases p) simp

lemmas keeps_intros =
  keeps_sreturn keeps_lift keeps_cout keeps_call keeps_call_if keeps_set_chosenIE keeps_get_chosenIE
  keeps_has_renderer keeps_getInferenceEngine keeps_setInferenceEngine keeps_sbind keeps_sthen
  keeps_seq_Nil keeps_seq_Cons keeps_if keeps_case_prod

lemma fail_of_keeps: "keeps m \<Longrightarrow> keeps_on_fail m"
  by (simp add: keeps_def keeps_on_fail_def)

lemma fail_insert_renderer: "keeps_on_fail (insert_renderer n t r)"
  by (simp add: keeps_on_fail_def insert_renderer_def)

lemma fail_sbind:
  assumes "keeps m" and "\<And>a. keeps_on_fail (f a)"
  shows "keeps_on_fail (sbind m f)"
  unfolding keeps_on_fail_def
proof (intro allI impI)
  fix s
  assume nr: "\<forall>u. fst (sbind m f s) \<noteq> Returns u"
  obtain r s1 where ms: "m s = (r, s1)" by (cases "m s")
  have r1: "renderers s1 = renderers s" using assms(1) ms by (auto simp: keeps_def dest: spec[of _ s])
  show "renderers (snd (sbind m f s)) = renderers s"
  proof (cases r)
    case (Returns a)
    from nr Returns ms have "\<forall>u. fst (f a s1) \<noteq> Returns u" by (simp add: sbind_def)
    then have "renderers (snd (f a s1)) = renderers s1" using assms(2)[of a] by (simp add: keeps_on_fail_def)
    with Returns ms r1 show ?thesis by (simp add: sbind_def)
  qed (use ms r1 in \<open>simp_all add: sbind_def\<close>)
qed

lemma fail_sthen: "keeps m \<Longrightarrow> keeps_on_fail n \<Longrightarrow> keeps_on_fail (sthen m n)"
  by (simp add: sthen_def fail_sbind)
lemma fail_seq_Cons: "keeps m \<Longrightarrow> keeps_on_fail (seq ms) \<Longrightarrow> keeps_on_fail (seq (m # ms))"
  by (simp add: fail_sthen)
lemma seq_single: "seq [m] = m"
  by (rule ext) (auto simp: sthen_def sbind_def sreturn_def split: prod.splits outcome.splits)
lemma fail_seq_last: "keeps_on_fail m \<Longrightarrow> keeps_on_fail (seq [m])"
  by (simp only: seq_single)
lemma fail_if: "keeps_on_fail a \<Longrightarrow> keeps_on_fail b \<Longrightarrow> keeps_on_fail (if c then a else b)" by simp

lemma keeps_stage_patch_level: "keeps (stage_patch_level x E)"
  unfolding stage_patch_level_def by (intro keeps_intros)
lemma keeps_stage_low_res: "keeps (stage_low_res x E)"
  unfolding stage_low_res_def by (intro keeps_intros)
lemma keeps_stage_cpu_override: "keeps (stage_cpu_override x E acc)"
  unfolding stage_cpu_override_def by (intro keeps_intros)
lemma keeps_stage_preselected_IE: "keeps (stage_preselected_IE x E)"
  unfolding stage_preselected_IE_def by (intro keeps_intros)
lemma keeps_output_node_stage: "keeps (output_node_stage E)"
  unfolding output_node_stage_def Let_def by (intro keeps_intros)
lemma keeps_stage_nodes_and_load: "keeps (stage_nodes_and_load x E)"
  unfolding stage_nodes_and_load_def Let_def by (intro keeps_intros keeps_output_node_stage)
lemma keeps_stage_input: "keeps (stage_input x E l)"
  unfolding stage_input_def Let_def by (intro keeps_intros)
lemma keeps_stage_scale_factor: "keeps (stage_scale_factor x E)"
  unfolding stage_scale_factor_def by (intro keeps_intros)

lemma fail_tail_classification_high: "keeps_on_fail (tail_classification_high x E)"
  unfolding tail_classification_high_def Let_def
  by (intro fail_sbind keeps_lift fail_insert_renderer)
lemma fail_tail_segmentation_high: "keeps_on_fail (tail_segmentation_high x E)"
  unfolding tail_segmentation_high_def Let_def
  by (intro fail_sbind keeps_lift fail_insert_renderer)
lemma fail_tail_object_detection: "keeps_on_fail (tail_object_detection x E)"
  unfolding tail_object_detection_def Let_def
  by (intro fail_seq_Cons fail_seq_last fail_insert_renderer keeps_intros)
lemma fail_tail_segmentation_low: "keeps_on_fail (tail_segmentation_low x E c)"
proof (cases c)
  case (Chosen l)
  show ?thesis
    unfolding tail_segmentation_low_def Let_def Chosen level_choice.case
    by (intro fail_seq_Cons fail_seq_last fail_sbind fail_insert_renderer keeps_call_if keeps_lift)
qed (simp_all add: tail_segmentation_low_def fail_of_keeps keeps_lift)
lemma fail_stage_tail: "keeps_on_fail (stage_tail x E c)"
  unfolding stage_tail_def Let_def
  by (intro fail_if fail_tail_classification_high fail_tail_segmentation_high
      fail_tail_object_detection fail_tail_segmentation_low fail_of_keeps keeps_sreturn)

lemma fail_run_network: "keeps_on_fail (run_network x E l c)"
  unfolding run_network_def
  by (intro fail_sbind fail_sthen fail_if fail_seq_Cons fail_seq_last fail_stage_tail
       keeps_lift keeps_call keeps_set_chosenIE keeps_setInferenceEngine keeps_cout
       keeps_stage_cpu_override keeps_stage_preselected_IE keeps_stage_nodes_and_load
       keeps_stage_input keeps_stage_scale_factor fail_of_keeps[OF keeps_sreturn])

lemma fail_then_cout: "keeps_on_fail m \<Longrightarrow> keeps_on_fail (sthen m (cout msg))"
  unfolding keeps_on_fail_def
proof (intro allI impI)
  fix s
  assume m: "\<forall>s. (\<forall>u. fst (m s) \<noteq> Returns u) \<longrightarrow> renderers (snd (m s)) = renderers s"
    and nr: "\<forall>u. fst (sthen m (cout msg) s) \<noteq> Returns u"
  obtain r s1 where ms: "m s = (r, s1)" by (cases "m s")
  from nr ms have "\<forall>u. r \<noteq> Returns u"
    by (cases r) (simp_all add: sthen_def sbind_def cout_def)
  with m ms have "renderers s1 = renderers s"
    by (metis fst_conv snd_conv)
  with ms \<open>\<forall>u. r \<noteq> Returns u\<close> show "renderers (snd (sthen m (cout msg) s)) = renderers s"
    by (cases r) (simp_all add: sthen_def sbind_def)
qed

lemma fail_pixelClassifier_try: "keeps_on_fail (pixelClassifier_try x E)"
  unfolding pixelClassifier_try_def
  by (intro fail_sbind fail_if keeps_has_renderer keeps_stage_patch_level keeps_stage_low_res
       fail_of_keeps[OF keeps_sreturn] fail_then_cout fail_run_network)

lemma sbind_lift_Returns: "sbind (lift (Returns v)) f = f v"
  by (rule ext) (simp add: sbind_def lift_def)

lemma run_network_unresolved:
  assumes "selectOptimalInferenceEngine (x_splitCustom x) (model_files E) (inference_engines E)
             (process_name E) = Returns ([], [])"
  shows "keeps (run_network x E l c)"
  unfolding run_network_def assms sbind_lift_Returns
  by (simp add: keeps_sbind keeps_sthen keeps_lift keeps_call keeps_set_chosenIE keeps_sreturn)

lemma pixelClassifier_try_unresolved:
  assumes "selectOptimalInferenceEngine (x_splitCustom x) (model_files E) (inference_engines E)
             (process_name E) = Returns ([], [])"
  shows "keeps (pixelClassifier_try x E)"
  unfolding pixelClassifier_try_def
  by (intro keeps_intros run_network_unresolved[OF assms] keeps_stage_patch_level keeps_stage_low_res)

text \<open>
  C3. When the body of the run throws, whatever the stage and the exception, the handler
  at the top of \<^verbatim>\<open>pixelClassifier\<close> catches it (the call returns, with the handler's
  line written), and the renderers registered on the image are exactly those registered
  before the call. When the engine resolver returns the empty pair, the renderers are
  unchanged as well. \<^verbatim>\<open>pixelClassifier\<close> itself never throws.
\<close>

theorem C3_failed_run_keeps_renderers:
  "(fst (pixelClassifier_try x E s) = Throws e \<longrightarrow>
      pixelClassifier x E s =
        (Returns (), (snd (pixelClassifier_try x E s))
           \<lparr>cout_log := cout_log (snd (pixelClassifier_try x E s))
              @ [''Exception caught in the inference process: '']\<rparr>)
      \<and> renderers (snd (pixelClassifier x E s)) = renderers s)
   \<and> (selectOptimalInferenceEngine (x_splitCustom x) (model_files E) (inference_engines E)
         (process_name E) = Returns ([], []) \<longrightarrow>
        renderers (snd (pixelClassifier x E s)) = renderers s)
   \<and> fst (pixelClassifier x E s) \<noteq> Throws e'"
proof (intro conjI impI)
  assume t: "fst (pixelClassifier_try x E s) = Throws e"
  then show "pixelClassifier x E s =
        (Returns (), (snd (pixelClassifier_try x E s))
           \<lparr>cout_log := cout_log (snd (pixelClassifier_try x E s))
              @ [''Exception caught in the inference process: '']\<rparr>)"
    by (cases "pixelClassifier_try x E s") (simp add: pixelClassifier_def)
  have "renderers (snd (pixelClassifier_try x E s)) = renderers s"
    using fail_pixelClassifier_try[of x E] t by (simp add: keeps_on_fail_def)
  with t show "renderers (snd (pixelClassifier x E s)) = renderers s"
    by (cases "pixelClassifier_try x E s") (simp add: pixelClassifier_def)
next
  assume "selectOptimalInferenceEngine (x_splitCustom x) (model_files E) (inference_engines E)
         (process_name E) = Returns ([], [])"
  then have "renderers (snd (pixelClassifier_try x E s)) = renderers s"
    using pixelClassifier_try_unresolved[of x E] by (simp add: keeps_def)
  then show "renderers (snd (pixelClassifier x E s)) = renderers s"
    by (cases "pixelClassifier_try x E s") (auto simp: pixelClassifier_def split: outcome.splits)
next
  show "fst (pixelClassifier x E s) \<noteq> Throws e'"
    by (cases "pixelClassifier_try x E s") (auto simp: pixelClassifier_def split: outcome.splits)
qed


theorem C3_failed_run_keeps_renderers_witness:
  "fst (pixelClassifier_try host (detection_run\<lparr>modelMetadata := (modelMetadata detection_run)(''cpu'' := None)\<rparr>) fresh)
     = Throws invalid_argument
   \<and> renderers (snd (pixelClassifier host
         (detection_run\<lparr>modelMetadata := (modelMetadata detection_run)(''cpu'' := None)\<rparr>) fresh))
       = renderers fresh
   \<and> selectOptimalInferenceEngine (x_splitCustom host) (model_files (detection_run\<lparr>model_files := []\<rparr>))
        (inference_engines (detection_run\<lparr>model_files := []\<rparr>))
        (process_name (detection_run\<lparr>model_files := []\<rparr>)) = Returns ([], [])
   \<and> renderers (snd (pixelClassifier host (detection_run\<lparr>model_files := []\<rparr>) fresh))
       = renderers fresh"
proof -
  let ?E1 = "detection_run\<lparr>modelMetadata := (modelMetadata detection_run)(''cpu'' := None)\<rparr>"
  let ?E2 = "detection_run\<lparr>model_files := []\<rparr>"
  have a: "fst (pixelClassifier_try host ?E1 fresh) = Throws invalid_argument"
    by (simp add: run_eval detection_run_def)
  have b: "selectOptimalInferenceEngine (x_splitCustom host) (model_files ?E2)
        (inference_engines ?E2) (process_name ?E2) = Returns ([], [])"
    by (simp add: selectOptimalInferenceEngine_def select_engine_pair_def detection_run_def)
  from a b C3_failed_run_keeps_renderers [of host ?E1 fresh invalid_argument]
    C3_failed_run_keeps_renderers [of host ?E2 fresh]
  show ?thesis by blast
qed

subsection \<open>C4: a result set that fails to load\<close>











subsection \<open>C5: the patch level of a high-resolution run\<close>















lemma grows_set_chosenIE: "grows (set_chosenIE v)" by (simp add: grows_def set_chosenIE_def)










subsection \<open>C6: an engine pinned by the metadata\<close>




subsection \<open>C7: the CPU flag\<close>





subsection \<open>C8: object detection and the resolved backend\<close>




subsection \<open>C9: the project manifest\<close>

lemmas project_eval =
  saveProject_def loadProject_def example_project_def empty_disk_def manifest_lines_def
  write_file_def split_on_def vec_back_def vec_at_def vec_front_def emptyProject_def
  includeImageFromProject_def map_assign_def file_exists_def

text \<open>
  C9, evaluated on a project in a temporary folder \<^verbatim>\<open>/tmp/project_12345678\<close> (the shape
  of root the constructor makes) holding one slide. \<^verbatim>\<open>saveProject\<close> writes the manifest
  \<^verbatim>\<open>/tmp/project_12345678/project.txt\<close> with the one line \<^verbatim>\<open>A,/data/A.svs\<close>, as claimed.
  \<^verbatim>\<open>loadProject\<close> on the disk so written returns a project without images: it opens
  \<^verbatim>\<open>_root_folder + "project.txt"\<close>, that is \<^verbatim>\<open>/tmp/project_12345678project.txt\<close>, which
  was never written. Had the same line stood in that file, the load would have returned
  the saved image set.
\<close>

theorem C9_save_then_load_loses_images:
  "(\<exists>fs. saveProject split_on empty_disk example_project = Returns fs
      \<and> fs_files fs ''/tmp/project_12345678/project.txt'' = Some [''A,/data/A.svs'']
      \<and> fs_files fs ''/tmp/project_12345678project.txt'' = None
      \<and> loadProject split_on fs example_project = Returns (example_project\<lparr>images := []\<rparr>))
   \<and> loadProject split_on
        (empty_disk\<lparr>fs_files := [''/tmp/project_12345678project.txt'' \<mapsto> [''A,/data/A.svs'']]\<rparr>)
        example_project = Returns example_project"
  by (simp add: project_eval)

subsection \<open>C10: looking up an image by name\<close>

text \<open>
  C10. \<^verbatim>\<open>Project::getImage(name)\<close> returns the stored whole-slide image exactly when
  the name is a key of the project's image map; for a name that is not a key it reaches
  the end of its body without returning a value, which the embedding keeps as the
  separate outcome \<open>Undefined\<close> (neither a value nor an exception).
\<close>

theorem C10_getImage_defined_iff:
  "(getImage p name = Returns w \<longleftrightarrow> map_of (images p) name = Some w)
   \<and> (getImage p name = Undefined \<longleftrightarrow> map_of (images p) name = None)
   \<and> getImage p name \<noteq> Throws e
   \<and> getImage (removeImage p name) name = Undefined
   \<and> getImage (emptyProject p) name = Undefined"
  by (cases "map_of (images p) name")
    (auto simp: getImage_def removeImage_def emptyProject_def AList.delete_conv)

end
